theory Spec2Isabelle
  imports Complex_Main
begin

section \<open>JavaScript values thrown and caught\<close>

text \<open>
  Strings are HOL strings, one \<^typ>\<open>char\<close> per code unit of the JavaScript string, so
  \<^term>\<open>length s\<close> is the \<^verbatim>\<open>.length\<close> of the source for strings of code units below 256.

  Whatever the source throws or catches is a value of \<open>js_error\<close>. All constructors but
  \<open>NonError\<close> are instances of the JavaScript class \<^verbatim>\<open>Error\<close> and carry its message;
  \<open>LanguageModelError\<close> is the provider's \<^verbatim>\<open>vscode.LanguageModelError\<close> with message and
  code; \<open>NonError\<close> is a thrown value that is not an \<^verbatim>\<open>Error\<close> object.
\<close>

datatype js_error =
    Error string
  | TypeError string
  | SyntaxError string
  | LanguageModelError string string
  | ERR_HTTP_HEADERS_SENT
  | NonError

text \<open>\<^verbatim>\<open>error instanceof Error ? error.message : fallback\<close>\<close>

fun error_message :: "js_error \<Rightarrow> string \<Rightarrow> string" where
  "error_message (Error m) fallback = m"
| "error_message (TypeError m) fallback = m"
| "error_message (SyntaxError m) fallback = m"
| "error_message (LanguageModelError m c) fallback = m"
| "error_message ERR_HTTP_HEADERS_SENT fallback =
     ''Cannot write headers after they are sent to the client''"
| "error_message NonError fallback = fallback"


section \<open>The protocol types of openai-api.ts\<close>

record ChatCompletionMessage =
  role :: string
  content :: string

record ChatCompletionRequest =
  model :: "string option"
  messages :: "ChatCompletionMessage list"
  temperature :: "real option"
  max_tokens :: "real option"
  stream :: "bool option"

record completion_usage =
  prompt_tokens :: nat
  completion_tokens :: nat
  total_tokens :: nat

record completion_choice =
  index :: nat
  message :: ChatCompletionMessage
  finish_reason :: string

text \<open>
  The fields \<^verbatim>\<open>id\<close>, \<^verbatim>\<open>object\<close>, \<^verbatim>\<open>created\<close> and \<^verbatim>\<open>model\<close> occur in both response
  interfaces; the buffered response has them with the prefix \<open>completion_\<close>, a streamed
  chunk with the prefix \<open>chunk_\<close>.
\<close>

record ChatCompletionResponse =
  completion_id :: string
  completion_object :: string
  completion_created :: nat
  completion_model :: string
  choices :: "completion_choice list"
  usage :: completion_usage

text \<open>An optional field of a delta that is absent is \<open>None\<close>; \<^verbatim>\<open>finish_reason: null\<close> is \<open>None\<close>.\<close>

record chunk_delta =
  delta_role :: "string option"
  delta_content :: "string option"

record chunk_choice =
  chunk_index :: nat
  delta :: chunk_delta
  chunk_finish_reason :: "string option"

record ChatCompletionStreamResponse =
  chunk_id :: string
  chunk_object :: string
  chunk_created :: nat
  chunk_model :: string
  chunk_choices :: "chunk_choice list"


section \<open>The provider: vscode.lm\<close>

text \<open>
  A model handle of the provider. The source reads \<^verbatim>\<open>vendor\<close> and \<^verbatim>\<open>family\<close> only;
  \<open>handle\<close> tells two models of the same vendor and family apart.
\<close>

record LanguageModelChat =
  handle :: string
  vendor :: string
  family :: string

text \<open>\<^verbatim>\<open>vscode.LanguageModelChatMessage.User(content)\<close> and \<^verbatim>\<open>.Assistant(content)\<close>\<close>

datatype LanguageModelChatMessage = User string | Assistant string

text \<open>
  The provider is a parameter of the model. \<open>selectChatModels\<close> takes the vendor filter
  (\<open>None\<close> when the source passes no selector) and returns the models or throws.
  \<open>sendRequest\<close> throws, or returns the response whose \<^verbatim>\<open>text\<close> iterator yields the fragments
  of the list in order and then ends (\<open>None\<close>) or throws (\<open>Some e\<close>).
\<close>

record vscode_lm =
  selectChatModels :: "string option \<Rightarrow> js_error + LanguageModelChat list"
  sendRequest :: "LanguageModelChat \<Rightarrow> LanguageModelChatMessage list
                    \<Rightarrow> js_error + (string list \<times> js_error option)"

text \<open>
  What the host's clock and random generator answer during one call:
  \<^verbatim>\<open>Math.random().toString(36).substring(2, 15)\<close>, \<^verbatim>\<open>Math.floor(Date.now() / 1000)\<close> and
  \<^verbatim>\<open>new Date().toISOString()\<close>.
\<close>

record host_env =
  random36 :: string
  now_seconds :: nat
  now_iso :: string


section \<open>VSCodeOpenAIAPI\<close>

record VSCodeOpenAIAPI =
  models :: "LanguageModelChat list"

definition no_models_message :: string where
  "no_models_message =
     ''No language models available. Please ensure GitHub Copilot or other LLM extensions are installed.''"

text \<open>
  \<open>initialize\<close>: the first element of the result is how the call ends (\<open>Inr ()\<close> when it
  returns, \<open>Inl e\<close> when it throws \<open>e\<close>), the second the object after the call. The
  assignment to \<^verbatim>\<open>this.models\<close> of line 71 has happened when the second query throws.
\<close>

definition initialize ::
  "vscode_lm \<Rightarrow> VSCodeOpenAIAPI \<Rightarrow> (js_error + unit) \<times> VSCodeOpenAIAPI" where
  "initialize lm api =
     (case selectChatModels lm (Some ''copilot'') of
        Inl e \<Rightarrow> (Inl (Error no_models_message), api)
      | Inr ms \<Rightarrow>
          (let api1 = api\<lparr>models := ms\<rparr> in
           if length (models api1) = 0 then
             (case selectChatModels lm None of
                Inl e \<Rightarrow> (Inl (Error no_models_message), api1)
              | Inr ms' \<Rightarrow> (Inr (), api1\<lparr>models := ms'\<rparr>))
           else (Inr (), api1)))"

text \<open>\<^verbatim>\<open>`${model.vendor}-${model.family}`\<close>\<close>

definition composite :: "LanguageModelChat \<Rightarrow> string" where
  "composite m = vendor m @ ''-'' @ family m"

definition listModels :: "VSCodeOpenAIAPI \<Rightarrow> string list" where
  "listModels api = map composite (models api)"

text \<open>\<^verbatim>\<open>this.models[0]\<close>: \<open>None\<close> is JavaScript's \<^verbatim>\<open>undefined\<close>, the value of the index in an empty array.\<close>

definition models_0 :: "VSCodeOpenAIAPI \<Rightarrow> LanguageModelChat option" where
  "models_0 api = (case models api of [] \<Rightarrow> None | m # rest \<Rightarrow> Some m)"

text \<open>
  \<open>selectModel\<close>: \<^verbatim>\<open>!modelName\<close> holds for an absent name and for the empty string.
  \<^verbatim>\<open>Array.prototype.find\<close> is \<^const>\<open>find\<close>: the first element that satisfies the predicate.
\<close>

definition selectModel :: "VSCodeOpenAIAPI \<Rightarrow> string option \<Rightarrow> LanguageModelChat option" where
  "selectModel api modelName =
     (case modelName of
        None \<Rightarrow> models_0 api
      | Some name \<Rightarrow>
          if name = [] then models_0 api
          else
            (case find (\<lambda>m. composite m = name \<or> family m = name) (models api) of
               Some exactMatch \<Rightarrow> Some exactMatch
             | None \<Rightarrow> models_0 api))"

text \<open>\<open>convertMessages\<close>: the \<^verbatim>\<open>switch\<close> on the role, with its \<^verbatim>\<open>default\<close> branch.\<close>

definition convertMessage :: "ChatCompletionMessage \<Rightarrow> LanguageModelChatMessage" where
  "convertMessage msg =
     (if role msg = ''system'' \<or> role msg = ''user'' then User (content msg)
      else if role msg = ''assistant'' then Assistant (content msg)
      else User (content msg))"

definition convertMessages :: "ChatCompletionMessage list \<Rightarrow> LanguageModelChatMessage list" where
  "convertMessages msgs = map convertMessage msgs"

definition generateId :: "host_env \<Rightarrow> string" where
  "generateId env = ''chatcmpl-'' @ random36 env"

text \<open>\<^verbatim>\<open>Array.prototype.join(sep)\<close> on an array of strings\<close>

fun join :: "string \<Rightarrow> string list \<Rightarrow> string" where
  "join sep [] = []"
| "join sep [s] = s"
| "join sep (s # t # rest) = s @ sep @ join sep (t # rest)"

text \<open>
  \<open>estimateTokens\<close>: \<^verbatim>\<open>Math.ceil(text.length / 4)\<close>. A length is an integer below \<open>2^53\<close>, so
  the quotient by 4 is exact in a double and the ceiling is the ceiling of the real quotient.
\<close>

definition estimateTokens :: "ChatCompletionMessage list \<Rightarrow> nat" where
  "estimateTokens msgs =
     (let text = join '' '' (map content msgs) in nat \<lceil>real (length text) / 4\<rceil>)"

text \<open>
  The \<^verbatim>\<open>catch\<close> block of both completion functions: a \<^verbatim>\<open>LanguageModelError\<close> is thrown again
  as a plain \<^verbatim>\<open>Error\<close>, anything else as it is.
\<close>

fun rethrow :: "js_error \<Rightarrow> js_error" where
  "rethrow (LanguageModelError m c) = Error (''Language Model Error: '' @ m @ '' ('' @ c @ '')'')"
| "rethrow e = e"

text \<open>\<^verbatim>\<open>if (this.models.length === 0) { await this.initialize(); }\<close>\<close>

definition ensure_initialized ::
  "vscode_lm \<Rightarrow> VSCodeOpenAIAPI \<Rightarrow> (js_error + unit) \<times> VSCodeOpenAIAPI" where
  "ensure_initialized lm api =
     (if length (models api) = 0 then initialize lm api else (Inr (), api))"

text \<open>What reading \<^verbatim>\<open>model.sendRequest\<close> throws when \<^verbatim>\<open>model\<close> is \<^verbatim>\<open>undefined\<close>.\<close>

definition undefined_model_error :: js_error where
  "undefined_model_error =
     TypeError ''Cannot read properties of undefined (reading 'sendRequest')''"

text \<open>The loop \<^verbatim>\<open>for await (const fragment of response.text) fullContent += fragment\<close>\<close>

definition accumulate :: "string list \<Rightarrow> string" where
  "accumulate fragments = foldl (\<lambda>fullContent fragment. fullContent @ fragment) [] fragments"

definition completionResponse ::
  "host_env \<Rightarrow> LanguageModelChat \<Rightarrow> ChatCompletionRequest \<Rightarrow> string \<Rightarrow> ChatCompletionResponse" where
  "completionResponse env m request fullContent =
     (let r = \<lparr> completion_id = generateId env,
                completion_object = ''chat.completion'',
                completion_created = now_seconds env,
                completion_model = composite m,
                choices = [\<lparr> index = 0,
                             message = \<lparr> role = ''assistant'', content = fullContent \<rparr>,
                             finish_reason = ''stop'' \<rparr>],
                usage = \<lparr> prompt_tokens = estimateTokens (messages request),
                           completion_tokens =
                             estimateTokens [\<lparr> role = ''assistant'', content = fullContent \<rparr>],
                           total_tokens = 0 \<rparr> \<rparr>
      in r\<lparr> usage := (usage r)\<lparr> total_tokens :=
                 prompt_tokens (usage r) + completion_tokens (usage r) \<rparr> \<rparr>)"

text \<open>
  \<open>createChatCompletion\<close>. Lines 96 to 102 stand before the \<^verbatim>\<open>try\<close>, so what
  \<open>initialize\<close> throws leaves the function as it is; the call of \<^verbatim>\<open>model.sendRequest\<close> and
  the loop over the fragments stand inside it.
\<close>

definition createChatCompletion ::
  "vscode_lm \<Rightarrow> host_env \<Rightarrow> VSCodeOpenAIAPI \<Rightarrow> ChatCompletionRequest
     \<Rightarrow> (js_error + ChatCompletionResponse) \<times> VSCodeOpenAIAPI" where
  "createChatCompletion lm env api request =
     (case ensure_initialized lm api of
        (Inl e, api1) \<Rightarrow> (Inl e, api1)
      | (Inr u, api1) \<Rightarrow>
          (let selected = selectModel api1 (model request);
               msgs = convertMessages (messages request)
           in case selected of
                None \<Rightarrow> (Inl (rethrow undefined_model_error), api1)
              | Some m \<Rightarrow>
                  (case sendRequest lm m msgs of
                     Inl e \<Rightarrow> (Inl (rethrow e), api1)
                   | Inr (fragments, failure) \<Rightarrow>
                       (let fullContent = accumulate fragments
                        in case failure of
                             Some e \<Rightarrow> (Inl (rethrow e), api1)
                           | None \<Rightarrow> (Inr (completionResponse env m request fullContent), api1)))))"

text \<open>The object literal of the three \<^verbatim>\<open>yield\<close> statements.\<close>

definition chunk ::
  "string \<Rightarrow> nat \<Rightarrow> LanguageModelChat \<Rightarrow> chunk_delta \<Rightarrow> string option
     \<Rightarrow> ChatCompletionStreamResponse" where
  "chunk i created m d fr =
     \<lparr> chunk_id = i, chunk_object = ''chat.completion.chunk'', chunk_created = created,
       chunk_model = composite m,
       chunk_choices = [\<lparr> chunk_index = 0, delta = d, chunk_finish_reason = fr \<rparr>] \<rparr>"

definition role_chunk :: "string \<Rightarrow> nat \<Rightarrow> LanguageModelChat \<Rightarrow> ChatCompletionStreamResponse" where
  "role_chunk i created m =
     chunk i created m \<lparr> delta_role = Some ''assistant'', delta_content = None \<rparr> None"

definition content_chunk ::
  "string \<Rightarrow> nat \<Rightarrow> LanguageModelChat \<Rightarrow> string \<Rightarrow> ChatCompletionStreamResponse" where
  "content_chunk i created m fragment =
     chunk i created m \<lparr> delta_role = None, delta_content = Some fragment \<rparr> None"

definition final_chunk :: "string \<Rightarrow> nat \<Rightarrow> LanguageModelChat \<Rightarrow> ChatCompletionStreamResponse" where
  "final_chunk i created m =
     chunk i created m \<lparr> delta_role = None, delta_content = None \<rparr> (Some ''stop'')"

text \<open>
  \<open>createChatCompletionStream\<close>, consumed to its end: the chunks the generator yields, in
  order, and how it ends (\<open>None\<close> when it returns, \<open>Some e\<close> when it throws \<open>e\<close> after
  the chunks), with the object after the run.
\<close>

definition createChatCompletionStream ::
  "vscode_lm \<Rightarrow> host_env \<Rightarrow> VSCodeOpenAIAPI \<Rightarrow> ChatCompletionRequest
     \<Rightarrow> (ChatCompletionStreamResponse list \<times> js_error option) \<times> VSCodeOpenAIAPI" where
  "createChatCompletionStream lm env api request =
     (case ensure_initialized lm api of
        (Inl e, api1) \<Rightarrow> (([], Some e), api1)
      | (Inr u, api1) \<Rightarrow>
          (let selected = selectModel api1 (model request);
               msgs = convertMessages (messages request);
               i = generateId env;
               created = now_seconds env
           in case selected of
                None \<Rightarrow> (([], Some (rethrow undefined_model_error)), api1)
              | Some m \<Rightarrow>
                  (case sendRequest lm m msgs of
                     Inl e \<Rightarrow> (([], Some (rethrow e)), api1)
                   | Inr (fragments, failure) \<Rightarrow>
                       (let yielded = role_chunk i created m # map (content_chunk i created m) fragments
                        in case failure of
                             Some e \<Rightarrow> ((yielded, Some (rethrow e)), api1)
                           | None \<Rightarrow> ((yielded @ [final_chunk i created m], None), api1)))))"

text \<open>
  \<open>OpenAIAPIServer\<close>. Its \<open>handleChatCompletions\<close> returns the buffered response or the
  generator; the generator's body runs when the caller iterates it, on the object as
  \<open>initialize\<close> left it, so the model holds the run it will make.
\<close>

datatype api_result =
    Completion ChatCompletionResponse
  | Generator "ChatCompletionStreamResponse list \<times> js_error option"

definition OpenAIAPIServer_handleChatCompletions ::
  "vscode_lm \<Rightarrow> host_env \<Rightarrow> VSCodeOpenAIAPI \<Rightarrow> ChatCompletionRequest
     \<Rightarrow> (js_error + api_result) \<times> VSCodeOpenAIAPI" where
  "OpenAIAPIServer_handleChatCompletions lm env api request =
     (case initialize lm api of
        (Inl e, api1) \<Rightarrow> (Inl e, api1)
      | (Inr u, api1) \<Rightarrow>
          if stream request = Some True then
            (case createChatCompletionStream lm env api1 request of
               (run, api2) \<Rightarrow> (Inr (Generator run), api2))
          else
            (case createChatCompletion lm env api1 request of
               (Inl e, api2) \<Rightarrow> (Inl e, api2)
             | (Inr response, api2) \<Rightarrow> (Inr (Completion response), api2)))"

record model_entry =
  entry_id :: string
  entry_object :: string
  entry_created :: nat
  owned_by :: string

definition OpenAIAPIServer_handleModels ::
  "vscode_lm \<Rightarrow> host_env \<Rightarrow> VSCodeOpenAIAPI \<Rightarrow> (js_error + model_entry list) \<times> VSCodeOpenAIAPI" where
  "OpenAIAPIServer_handleModels lm env api =
     (case initialize lm api of
        (Inl e, api1) \<Rightarrow> (Inl e, api1)
      | (Inr u, api1) \<Rightarrow>
          (Inr (map (\<lambda>modelId. \<lparr> entry_id = modelId, entry_object = ''model'',
                                  entry_created = now_seconds env, owned_by = ''vscode'' \<rparr>)
                    (listModels api1)), api1))"


section \<open>The HTTP server of http-server.ts\<close>

subsection \<open>Parsed request bodies\<close>

text \<open>
  What \<^verbatim>\<open>JSON.parse\<close> returns. An object holds its own properties, each key once.
\<close>

datatype json =
    JNull
  | JBool bool
  | JNum real
  | JStr string
  | JArr "json list"
  | JObj "(string \<times> json) list"

text \<open>
  Reading the property \<open>k\<close> of a parsed value, for the keys the source reads
  (\<^verbatim>\<open>messages\<close>, \<^verbatim>\<open>stream\<close>, \<^verbatim>\<open>model\<close>, \<^verbatim>\<open>role\<close>, \<^verbatim>\<open>content\<close>), none of which a prototype
  defines: \<open>Inr None\<close> is \<^verbatim>\<open>undefined\<close>, and reading a property of \<^verbatim>\<open>null\<close> throws.
\<close>

fun get_property :: "json \<Rightarrow> string \<Rightarrow> js_error + json option" where
  "get_property JNull k =
     Inl (TypeError (''Cannot read properties of null (reading '' @ [CHR 0x27] @ k @ [CHR 0x27] @ '')''))"
| "get_property (JObj kvs) k = Inr (map_of kvs k)"
| "get_property (JBool b) k = Inr None"
| "get_property (JNum x) k = Inr None"
| "get_property (JStr s) k = Inr None"
| "get_property (JArr xs) k = Inr None"

text \<open>JavaScript's truthiness of a value or \<^verbatim>\<open>undefined\<close>, and \<^verbatim>\<open>Array.isArray\<close>.\<close>

fun truthy :: "json option \<Rightarrow> bool" where
  "truthy None = False"
| "truthy (Some JNull) = False"
| "truthy (Some (JBool b)) = b"
| "truthy (Some (JNum x)) = (x \<noteq> 0)"
| "truthy (Some (JStr s)) = (s \<noteq> [])"
| "truthy (Some (JArr xs)) = True"
| "truthy (Some (JObj kvs)) = True"

fun isArray :: "json option \<Rightarrow> bool" where
  "isArray (Some (JArr xs)) = True"
| "isArray v = False"

text \<open>
  \<^verbatim>\<open>const request: ChatCompletionRequest = JSON.parse(body)\<close> is not checked at run time.
  \<open>as_request\<close> reads a parsed body as the record the annotation declares. The model name
  is compared with strings by \<^verbatim>\<open>===\<close> only, so a name that is not a string selects what an
  absent name selects; of \<^verbatim>\<open>stream\<close> only the truthiness is read; \<^verbatim>\<open>temperature\<close> and
  \<^verbatim>\<open>max_tokens\<close> are never read. A body with a message that is not an object with a string
  \<^verbatim>\<open>role\<close> and a string \<^verbatim>\<open>content\<close> is outside the model: \<open>None\<close>.
\<close>

fun as_message :: "json \<Rightarrow> ChatCompletionMessage option" where
  "as_message (JObj kvs) =
     (case (map_of kvs ''role'', map_of kvs ''content'') of
        (Some (JStr r), Some (JStr c)) \<Rightarrow> Some \<lparr> role = r, content = c \<rparr>
      | other \<Rightarrow> None)"
| "as_message v = None"

fun as_messages :: "json list \<Rightarrow> ChatCompletionMessage list option" where
  "as_messages [] = Some []"
| "as_messages (v # vs) =
     (case as_message v of
        None \<Rightarrow> None
      | Some m \<Rightarrow> (case as_messages vs of None \<Rightarrow> None | Some ms \<Rightarrow> Some (m # ms)))"

fun as_request :: "json \<Rightarrow> ChatCompletionRequest option" where
  "as_request (JObj kvs) =
     (case map_of kvs ''messages'' of
        Some (JArr vs) \<Rightarrow>
          (case as_messages vs of
             None \<Rightarrow> None
           | Some ms \<Rightarrow>
               Some \<lparr> model = (case map_of kvs ''model'' of Some (JStr s) \<Rightarrow> Some s | other \<Rightarrow> None),
                      messages = ms,
                      temperature = (case map_of kvs ''temperature'' of Some (JNum x) \<Rightarrow> Some x | other \<Rightarrow> None),
                      max_tokens = (case map_of kvs ''max_tokens'' of Some (JNum x) \<Rightarrow> Some x | other \<Rightarrow> None),
                      stream = (case map_of kvs ''stream'' of None \<Rightarrow> None | Some v \<Rightarrow> Some (truthy (Some v))) \<rparr>)
      | other \<Rightarrow> None)"
| "as_request v = None"

subsection \<open>The response object\<close>

record error_envelope =
  type :: string
  message_text :: string

text \<open>
  What is written to the response: each constructor is one string of the source, with the
  value \<^verbatim>\<open>JSON.stringify\<close> serialises kept as a value.
\<close>

datatype payload =
    NoData
  | ErrorJson error_envelope
  | CompletionJson ChatCompletionResponse
  | SSEData ChatCompletionStreamResponse
  | SSEDone
  | ModelsJson "model_entry list"
  | HealthJson string string string

text \<open>
  \<^verbatim>\<open>http.ServerResponse\<close>: \<^verbatim>\<open>writeHead\<close> throws once the header has been written, which a
  second \<^verbatim>\<open>writeHead\<close> on the same response meets.
\<close>

record ServerResponse =
  headersSent :: bool
  statusCode :: nat
  headers :: "(string \<times> string) list"
  written :: "payload list"
  ended :: bool

definition new_response :: ServerResponse where
  "new_response =
     \<lparr> headersSent = False, statusCode = 200, headers = [], written = [], ended = False \<rparr>"

definition setHeader :: "ServerResponse \<Rightarrow> string \<Rightarrow> string \<Rightarrow> ServerResponse" where
  "setHeader res k v = res\<lparr> headers := headers res @ [(k, v)] \<rparr>"

definition writeHead ::
  "ServerResponse \<Rightarrow> nat \<Rightarrow> (string \<times> string) list \<Rightarrow> (js_error + unit) \<times> ServerResponse" where
  "writeHead res code hs =
     (if headersSent res then (Inl ERR_HTTP_HEADERS_SENT, res)
      else (Inr (), res\<lparr> headersSent := True, statusCode := code, headers := headers res @ hs \<rparr>))"

definition res_write :: "ServerResponse \<Rightarrow> payload \<Rightarrow> ServerResponse" where
  "res_write res d = res\<lparr> headersSent := True, written := written res @ [d] \<rparr>"

definition res_end :: "ServerResponse \<Rightarrow> payload \<Rightarrow> ServerResponse" where
  "res_end res d = res\<lparr> headersSent := True, written := written res @ [d], ended := True \<rparr>"

subsection \<open>sendError\<close>

text \<open>\<^verbatim>\<open>String.prototype.toLowerCase\<close> on the letters A to Z; the source passes three ASCII phrases.\<close>

definition lower_char :: "char \<Rightarrow> char" where
  "lower_char c =
     (case map_of (zip ''ABCDEFGHIJKLMNOPQRSTUVWXYZ'' ''abcdefghijklmnopqrstuvwxyz'') c of
        Some l \<Rightarrow> l
      | None \<Rightarrow> c)"

definition toLowerCase :: "string \<Rightarrow> string" where
  "toLowerCase s = map lower_char s"

text \<open>
  \<^verbatim>\<open>String.prototype.replace(pattern, replacement)\<close> with a string pattern: the first
  occurrence of the pattern is replaced, the rest of the string is kept.
\<close>

fun replace :: "string \<Rightarrow> string \<Rightarrow> string \<Rightarrow> string" where
  "replace [] pat rep = (if pat = [] then rep else [])"
| "replace (c # cs) pat rep =
     (if take (length pat) (c # cs) = pat then rep @ drop (length pat) (c # cs)
      else c # replace cs pat rep)"

definition sendError ::
  "ServerResponse \<Rightarrow> nat \<Rightarrow> string \<Rightarrow> string \<Rightarrow> (js_error + unit) \<times> ServerResponse" where
  "sendError res code error msg =
     (case writeHead res code [(''Content-Type'', ''application/json'')] of
        (Inl e, res1) \<Rightarrow> (Inl e, res1)
      | (Inr u, res1) \<Rightarrow>
          (Inr (), res_end res1
             (ErrorJson \<lparr> type = replace (toLowerCase error) '' '' ''_'', message_text = msg \<rparr>)))"

subsection \<open>VSCodeLLMServer\<close>

text \<open>
  The body of a request as \<open>readRequestBody\<close> and \<^verbatim>\<open>JSON.parse\<close> deliver it: the stream of
  the request fails, the text does not parse (with what \<^verbatim>\<open>JSON.parse\<close> throws), or it
  parses to a value.
\<close>

datatype request_body =
    ReadFailed js_error
  | Unparseable js_error
  | Parsed json

record IncomingMessage =
  http_method :: string
  pathname :: "string option"
  body :: request_body

type_synonym handled = "(js_error + unit) \<times> ServerResponse \<times> VSCodeOpenAIAPI"

definition sse_headers :: "(string \<times> string) list" where
  "sse_headers =
     [(''Content-Type'', ''text/event-stream''), (''Cache-Control'', ''no-cache''),
      (''Connection'', ''keep-alive'')]"

definition json_headers :: "(string \<times> string) list" where
  "json_headers = [(''Content-Type'', ''application/json'')]"

text \<open>
  The \<^verbatim>\<open>try\<close> block of \<open>handleChatCompletions\<close> (lines 94 to 122) on a parsed body:
  \<open>Some (Inl e, _)\<close> when it throws \<open>e\<close>, and \<open>None\<close> for a body outside the model (see
  \<open>as_request\<close>). The validation reads the parsed value itself.
\<close>

definition completions_try :: "vscode_lm \<Rightarrow> host_env \<Rightarrow> VSCodeOpenAIAPI \<Rightarrow> ServerResponse \<Rightarrow> json
     \<Rightarrow> handled option" where
  "completions_try lm env api res request =
     (case get_property request ''messages'' of
        Inl e \<Rightarrow> Some (Inl e, res, api)
      | Inr msgs \<Rightarrow>
          if \<not> truthy msgs then
            (case sendError res 400 ''Bad Request'' ''messages field is required and must be an array'' of
               (r, res1) \<Rightarrow> Some (r, res1, api))
          else if \<not> isArray msgs then
            (case sendError res 400 ''Bad Request'' ''messages field is required and must be an array'' of
               (r, res1) \<Rightarrow> Some (r, res1, api))
          else
            (case as_request request of
               None \<Rightarrow> None
             | Some typed \<Rightarrow>
                 (case OpenAIAPIServer_handleChatCompletions lm env api typed of
                    (Inl e, api1) \<Rightarrow> Some (Inl e, res, api1)
                  | (Inr (Generator (chunks, failure)), api1) \<Rightarrow>
                      (case writeHead res 200 sse_headers of
                         (Inl e, res1) \<Rightarrow> Some (Inl e, res1, api1)
                       | (Inr u, res1) \<Rightarrow>
                           (let res2 = foldl (\<lambda>r c. res_write r (SSEData c)) res1 chunks
                            in case failure of
                                 Some e \<Rightarrow> Some (Inl e, res2, api1)
                               | None \<Rightarrow> Some (Inr (), res_end (res_write res2 SSEDone) NoData, api1)))
                  | (Inr (Completion response), api1) \<Rightarrow>
                      (case writeHead res 200 json_headers of
                         (Inl e, res1) \<Rightarrow> Some (Inl e, res1, api1)
                       | (Inr u, res1) \<Rightarrow> Some (Inr (), res_end res1 (CompletionJson response), api1)))))"

text \<open>
  \<open>handleChatCompletions\<close> of the server: reading the body stands before the \<^verbatim>\<open>try\<close>;
  whatever the block throws, the failure of \<^verbatim>\<open>JSON.parse\<close> included, reaches the
  \<^verbatim>\<open>catch\<close> of line 123.
\<close>

definition completions_catch :: "js_error \<Rightarrow> ServerResponse \<Rightarrow> VSCodeOpenAIAPI \<Rightarrow> handled" where
  "completions_catch e res api =
     (case sendError res 400 ''Bad Request'' (error_message e ''Invalid request'') of
        (r, res1) \<Rightarrow> (r, res1, api))"

definition VSCodeLLMServer_handleChatCompletions ::
  "vscode_lm \<Rightarrow> host_env \<Rightarrow> VSCodeOpenAIAPI \<Rightarrow> ServerResponse \<Rightarrow> request_body \<Rightarrow> handled option" where
  "VSCodeLLMServer_handleChatCompletions lm env api res b =
     (case b of
        ReadFailed e \<Rightarrow> Some (Inl e, res, api)
      | Unparseable e \<Rightarrow> Some (completions_catch e res api)
      | Parsed request \<Rightarrow>
          (case completions_try lm env api res request of
             None \<Rightarrow> None
           | Some (Inl e, res1, api1) \<Rightarrow> Some (completions_catch e res1 api1)
           | Some (Inr u, res1, api1) \<Rightarrow> Some (Inr u, res1, api1)))"

definition VSCodeLLMServer_handleModels ::
  "vscode_lm \<Rightarrow> host_env \<Rightarrow> VSCodeOpenAIAPI \<Rightarrow> ServerResponse \<Rightarrow> handled" where
  "VSCodeLLMServer_handleModels lm env api res =
     (case OpenAIAPIServer_handleModels lm env api of
        (Inl e, api1) \<Rightarrow>
          (case sendError res 500 ''Internal Server Error'' (error_message e ''Failed to get models'') of
             (r, res1) \<Rightarrow> (r, res1, api1))
      | (Inr entries, api1) \<Rightarrow>
          (case writeHead res 200 json_headers of
             (Inl e, res1) \<Rightarrow>
               (case sendError res1 500 ''Internal Server Error'' (error_message e ''Failed to get models'') of
                  (r, res2) \<Rightarrow> (r, res2, api1))
           | (Inr u, res1) \<Rightarrow> (Inr (), res_end res1 (ModelsJson entries), api1)))"

definition handleHealth :: "host_env \<Rightarrow> VSCodeOpenAIAPI \<Rightarrow> ServerResponse \<Rightarrow> handled" where
  "handleHealth env api res =
     (case writeHead res 200 json_headers of
        (Inl e, res1) \<Rightarrow> (Inl e, res1, api)
      | (Inr u, res1) \<Rightarrow>
          (Inr (), res_end res1 (HealthJson ''healthy'' (now_iso env) ''VS Code LLM API''), api))"

definition cors :: "ServerResponse \<Rightarrow> ServerResponse" where
  "cors res =
     setHeader
       (setHeader (setHeader res ''Access-Control-Allow-Origin'' ''*'')
          ''Access-Control-Allow-Methods'' ''GET, POST, OPTIONS'')
       ''Access-Control-Allow-Headers'' ''Content-Type, Authorization''"

text \<open>The routes of \<open>handleRequest\<close> (lines 72 to 80), inside its \<^verbatim>\<open>try\<close>.\<close>

definition route ::
  "vscode_lm \<Rightarrow> host_env \<Rightarrow> VSCodeOpenAIAPI \<Rightarrow> ServerResponse \<Rightarrow> IncomingMessage \<Rightarrow> handled option" where
  "route lm env api res req =
     (if pathname req = Some ''/v1/chat/completions'' \<and> http_method req = ''POST'' then
        VSCodeLLMServer_handleChatCompletions lm env api res (body req)
      else if pathname req = Some ''/v1/models'' \<and> http_method req = ''GET'' then
        Some (VSCodeLLMServer_handleModels lm env api res)
      else if pathname req = Some ''/health'' \<and> http_method req = ''GET'' then
        Some (handleHealth env api res)
      else
        (case sendError res 404 ''Not Found'' ''The requested endpoint was not found'' of
           (r, res1) \<Rightarrow> Some (r, res1, api)))"

text \<open>
  \<open>handleRequest\<close> on the fresh response \<^verbatim>\<open>http.createServer\<close> hands it: \<open>Inl e\<close> in the
  result is a rejection of the promise the handler returns, which nothing catches.
\<close>

definition handleRequest ::
  "vscode_lm \<Rightarrow> host_env \<Rightarrow> VSCodeOpenAIAPI \<Rightarrow> IncomingMessage \<Rightarrow> handled option" where
  "handleRequest lm env api req =
     (let res = cors new_response in
      if http_method req = ''OPTIONS'' then
        (case writeHead res 200 [] of
           (Inl e, res1) \<Rightarrow> Some (Inl e, res1, api)
         | (Inr u, res1) \<Rightarrow> Some (Inr (), res_end res1 NoData, api))
      else
        (case route lm env api res req of
           None \<Rightarrow> None
         | Some (Inl e, res1, api1) \<Rightarrow>
             (case sendError res1 500 ''Internal Server Error'' (error_message e ''Unknown error'') of
                (r, res2) \<Rightarrow> Some (r, res2, api1))
         | Some (Inr u, res1, api1) \<Rightarrow> Some (Inr u, res1, api1)))"


section \<open>Observations and sample inputs\<close>

text \<open>
  What a client reads off a response: \<^verbatim>\<open>choices[0].message.content\<close> of a buffered response,
  \<^verbatim>\<open>choices[0].delta\<close> and \<^verbatim>\<open>choices[0].finish_reason\<close> of a chunk, and the concatenation
  of the \<^verbatim>\<open>delta.content\<close> fields that are present in a sequence of chunks. The sample
  provider \<open>lm_acme\<close> is the one of the specification's example scenario: no model of the
  default vendor, the model \<^verbatim>\<open>acme-fast\<close>, and the fragments \<^verbatim>\<open>"Hi "\<close> and \<^verbatim>\<open>"there!"\<close>.
\<close>

definition choices_0_content :: "ChatCompletionResponse \<Rightarrow> string" where
  "choices_0_content r = content (message (choices r ! 0))"

definition chunk_delta_0 :: "ChatCompletionStreamResponse \<Rightarrow> chunk_delta" where
  "chunk_delta_0 c = delta (chunk_choices c ! 0)"

definition chunk_finish_0 :: "ChatCompletionStreamResponse \<Rightarrow> string option" where
  "chunk_finish_0 c = chunk_finish_reason (chunk_choices c ! 0)"

definition delta_contents :: "ChatCompletionStreamResponse list \<Rightarrow> string" where
  "delta_contents cs = concat (List.map_filter (\<lambda>c. delta_content (chunk_delta_0 c)) cs)"

definition acme_fast :: LanguageModelChat where
  "acme_fast = \<lparr> handle = ''model-1'', vendor = ''acme'', family = ''fast'' \<rparr>"

definition lm_acme :: vscode_lm where
  "lm_acme =
     \<lparr> selectChatModels = (\<lambda>selector. if selector = Some ''copilot'' then Inr [] else Inr [acme_fast]),
       sendRequest = (\<lambda>m msgs. Inr ([''Hi '', ''there!''], None)) \<rparr>"

definition env0 :: host_env where
  "env0 = \<lparr> random36 = ''k3j9x0q1z8a2b'', now_seconds = 1700000000,
            now_iso = ''2023-11-14T22:13:20.000Z'' \<rparr>"

definition no_models :: VSCodeOpenAIAPI where
  "no_models = \<lparr> models = [] \<rparr>"

definition two_messages :: ChatCompletionRequest where
  "two_messages =
     \<lparr> model = None,
       messages = [\<lparr> role = ''system'', content = ''abcd'' \<rparr>, \<lparr> role = ''user'', content = ''efgh'' \<rparr>],
       temperature = None, max_tokens = None, stream = None \<rparr>"

definition three_roles :: "ChatCompletionMessage list" where
  "three_roles =
     [\<lparr> role = ''system'', content = ''Be brief.'' \<rparr>,
      \<lparr> role = ''user'', content = ''Hello!'' \<rparr>,
      \<lparr> role = ''assistant'', content = ''Hi.'' \<rparr>]"

definition hello :: ChatCompletionRequest where
  "hello =
     \<lparr> model = None, messages = [\<lparr> role = ''user'', content = ''Hello!'' \<rparr>],
       temperature = None, max_tokens = None, stream = Some True \<rparr>"

definition shadowed :: VSCodeOpenAIAPI where
  "shadowed =
     \<lparr> models = [\<lparr> handle = ''model-1'', vendor = ''x'', family = ''a-b'' \<rparr>,
                 \<lparr> handle = ''model-2'', vendor = ''a'', family = ''b'' \<rparr>] \<rparr>"

definition lm_none :: vscode_lm where
  "lm_none =
     \<lparr> selectChatModels = (\<lambda>selector. Inr []),
       sendRequest = (\<lambda>m msgs. Inr ([''unreachable''], None)) \<rparr>"


text \<open>
  Sample requests of the HTTP server, as parsed bodies: one message, the same with
  \<^verbatim>\<open>stream\<close> set, an empty list of messages, and no \<^verbatim>\<open>messages\<close> field. The provider
  \<open>lm_quota\<close> has the model of \<open>lm_acme\<close> and rejects every request; \<open>lm_broken\<close> fails
  to list models. \<open>error_response\<close> is a response after the error envelope with the type
  \<open>t\<close> and the message \<open>msg\<close> has been sent on it under the status \<open>code\<close>.
\<close>

definition lm_quota :: vscode_lm where
  "lm_quota =
     \<lparr> selectChatModels = (\<lambda>selector. if selector = Some ''copilot'' then Inr [] else Inr [acme_fast]),
       sendRequest = (\<lambda>m msgs. Inl (LanguageModelError ''Quota exceeded'' ''Blocked'')) \<rparr>"

definition lm_broken :: vscode_lm where
  "lm_broken =
     \<lparr> selectChatModels = (\<lambda>selector. Inl (Error ''Language model access is not available'')),
       sendRequest = (\<lambda>m msgs. Inr ([''unreachable''], None)) \<rparr>"

definition hello_body :: json where
  "hello_body =
     JObj [(''messages'', JArr [JObj [(''role'', JStr ''user''), (''content'', JStr ''Hello!'')]])]"

definition empty_messages_body :: json where
  "empty_messages_body = JObj [(''messages'', JArr [])]"

definition no_messages_body :: json where
  "no_messages_body = JObj [(''model'', JStr ''acme-fast'')]"

definition post_completions :: "json \<Rightarrow> IncomingMessage" where
  "post_completions j =
     \<lparr> http_method = ''POST'', pathname = Some ''/v1/chat/completions'', body = Parsed j \<rparr>"

definition get_models :: IncomingMessage where
  "get_models = \<lparr> http_method = ''GET'', pathname = Some ''/v1/models'', body = Parsed JNull \<rparr>"

definition hello_stream_body :: json where
  "hello_stream_body =
     JObj [(''messages'', JArr [JObj [(''role'', JStr ''user''), (''content'', JStr ''Hello!'')]]),
           (''stream'', JBool True)]"

definition error_response :: "ServerResponse \<Rightarrow> nat \<Rightarrow> string \<Rightarrow> string \<Rightarrow> ServerResponse" where
  "error_response res code t msg =
     res\<lparr> headersSent := True, statusCode := code,
          headers := headers res @ [(''Content-Type'', ''application/json'')],
          written := written res @ [ErrorJson \<lparr> type = t, message_text = msg \<rparr>],
          ended := True \<rparr>"


section \<open>Properties of the completion translator\<close>

subsection \<open>Auxiliary facts\<close>

lemma accumulate_from: "foldl (\<lambda>fullContent fragment. fullContent @ fragment) acc fragments = acc @ concat fragments"
  by (induction fragments arbitrary: acc) simp_all

lemma accumulate_concat: "accumulate fragments = concat fragments"
  by (simp add: accumulate_def accumulate_from)

lemma length_join_space:
  "length (join '' '' xs) = sum_list (map length xs) + (length xs - 1)"
  by (induction "'' ''" xs rule: join.induct) simp_all

lemma createChatCompletion_Inr:
  assumes "createChatCompletion lm env api request = (Inr r, api')"
  shows "\<exists>m fragments.
           ensure_initialized lm api = (Inr (), api') \<and>
           selectModel api' (model request) = Some m \<and>
           sendRequest lm m (convertMessages (messages request)) = Inr (fragments, None) \<and>
           r = completionResponse env m request (accumulate fragments)"
  using assms
  by (auto simp: createChatCompletion_def Let_def split: prod.splits sum.splits option.splits)

lemma stream_run:
  assumes "ensure_initialized lm api = (Inr (), api1)"
      and "selectModel api1 (model request) = Some m"
      and "sendRequest lm m (convertMessages (messages request)) = Inr (fragments, None)"
  shows "createChatCompletionStream lm env api request =
           ((role_chunk (generateId env) (now_seconds env) m
               # map (content_chunk (generateId env) (now_seconds env) m) fragments
               @ [final_chunk (generateId env) (now_seconds env) m], None), api1)"
  using assms by (simp add: createChatCompletionStream_def Let_def)

lemma estimateTokens_ceiling:
  "estimateTokens msgs =
     nat \<lceil>real (sum_list (map (length \<circ> content) msgs) + (length msgs - 1)) / 4\<rceil>"
  unfolding estimateTokens_def Let_def length_join_space by (simp only: map_map length_map)

lemma estimateTokens_single:
  "estimateTokens [\<lparr> role = r, content = c \<rparr>] = nat \<lceil>real (length c) / 4\<rceil>"
  by (simp add: estimateTokens_def)

lemma completionResponse_usage:
  "prompt_tokens (usage (completionResponse env m request c)) = estimateTokens (messages request)"
  "completion_tokens (usage (completionResponse env m request c)) =
     estimateTokens [\<lparr> role = ''assistant'', content = c \<rparr>]"
  "total_tokens (usage (completionResponse env m request c)) =
     estimateTokens (messages request) + estimateTokens [\<lparr> role = ''assistant'', content = c \<rparr>]"
  "choices_0_content (completionResponse env m request c) = c"
  by (simp_all add: completionResponse_def Let_def choices_0_content_def)

lemma run_two_messages:
  "createChatCompletion lm_acme env0 no_models two_messages =
     (Inr (completionResponse env0 acme_fast two_messages ''Hi there!''), \<lparr> models = [acme_fast] \<rparr>)"
  by (simp add: createChatCompletion_def ensure_initialized_def initialize_def no_models_def
      lm_acme_def selectModel_def models_0_def two_messages_def accumulate_def Let_def)

lemma init_acme: "ensure_initialized lm_acme no_models = (Inr (), \<lparr> models = [acme_fast] \<rparr>)"
  by (simp add: ensure_initialized_def initialize_def no_models_def lm_acme_def)

lemma initialize_both_empty:
  assumes "selectChatModels lm (Some ''copilot'') = Inr []" and "selectChatModels lm None = Inr []"
  shows "initialize lm api = (Inr (), api\<lparr> models := [] \<rparr>)"
  using assms by (simp add: initialize_def)


subsection \<open>Model selection\<close>

text \<open>
  Claim C4, as the code has it. On a non-empty cached list \<open>selectModel\<close> always returns a
  model and never fails. With a present, non-empty name that some model matches, by its
  composite identifier or by its bare family label, the result is the first model of the
  list that matches in either way: no model before it matches, and a composite match has no
  priority over a family match. With an absent name, an empty name or a name that no model
  matches, the result is the first cached model.
\<close>

theorem selectModel_first_match:
  assumes "models api \<noteq> []"
  shows "\<exists>m. selectModel api modelName = Some m \<and>
     (case modelName of
        None \<Rightarrow> m = models api ! 0
      | Some name \<Rightarrow>
          if name \<noteq> [] \<and> (\<exists>m' \<in> set (models api). composite m' = name \<or> family m' = name)
          then \<exists>i < length (models api). m = models api ! i
                 \<and> (composite m = name \<or> family m = name)
                 \<and> (\<forall>j < i. composite (models api ! j) \<noteq> name \<and> family (models api ! j) \<noteq> name)
          else m = models api ! 0)"
proof -
  from assms obtain m0 rest where ms: "models api = m0 # rest" by (cases "models api") auto
  then have m0: "models_0 api = Some m0" "models api ! 0 = m0" by (simp_all add: models_0_def)
  show ?thesis
  proof (cases modelName)
    case None
    then show ?thesis by (simp add: selectModel_def m0)
  next
    case (Some name)
    let ?P = "\<lambda>m. composite m = name \<or> family m = name"
    show ?thesis
    proof (cases "name \<noteq> [] \<and> (\<exists>m' \<in> set (models api). ?P m')")
      case True
      then obtain m where f: "find ?P (models api) = Some m"
        by (cases "find ?P (models api)") (auto simp: find_None_iff)
      then obtain i where "i < length (models api)" "?P (models api ! i)" "m = models api ! i"
          "\<forall>j < i. \<not> ?P (models api ! j)"
        by (auto simp: find_Some_iff)
      then have "\<exists>i < length (models api). m = models api ! i \<and> ?P m
                 \<and> (\<forall>j < i. composite (models api ! j) \<noteq> name \<and> family (models api ! j) \<noteq> name)"
        by blast
      moreover have "selectModel api modelName = Some m"
        using True f by (simp add: selectModel_def Some)
      ultimately show ?thesis using True Some by simp
    next
      case False
      have "selectModel api modelName = Some m0"
      proof (cases "name = []")
        case True
        then show ?thesis by (simp add: selectModel_def Some m0)
      next
        case nonempty: False
        with False have "find ?P (models api) = None" by (simp add: find_None_iff)
        then show ?thesis using nonempty by (simp add: selectModel_def Some m0)
      qed
      then show ?thesis using False Some m0 by auto
    qed
  qed
qed

text \<open>
  The theorem for C4 at the list \<open>shadowed\<close>, which is not empty: an unknown name and an
  absent name both select the first cached model, and the name \<^verbatim>\<open>b\<close>, the family label of
  the second model only, selects the second.
\<close>

theorem selectModel_first_match_witness:
  "selectModel shadowed (Some ''nonexistent-name'') = Some (models shadowed ! 0)
   \<and> selectModel shadowed None = Some (models shadowed ! 0)
   \<and> selectModel shadowed (Some ''b'') = Some (models shadowed ! 1)"
proof -
  have ne: "models shadowed \<noteq> []" by (simp add: shadowed_def)
  have no: "\<not> (''nonexistent-name'' \<noteq> [] \<and>
               (\<exists>m' \<in> set (models shadowed).
                   composite m' = ''nonexistent-name'' \<or> family m' = ''nonexistent-name''))"
    by (simp add: shadowed_def composite_def)
  from selectModel_first_match [OF ne, of "Some ''nonexistent-name''"] no
  have unknown: "selectModel shadowed (Some ''nonexistent-name'') = Some (models shadowed ! 0)"
    by auto
  from selectModel_first_match [OF ne, of None]
  have absent: "selectModel shadowed None = Some (models shadowed ! 0)"
    by auto
  have yes: "''b'' \<noteq> [] \<and>
               (\<exists>m' \<in> set (models shadowed). composite m' = ''b'' \<or> family m' = ''b'')"
    by (simp add: shadowed_def composite_def)
  have first: "\<not> (composite (models shadowed ! 0) = ''b'' \<or> family (models shadowed ! 0) = ''b'')"
    by (simp add: shadowed_def composite_def)
  have len: "length (models shadowed) = 2" by (simp add: shadowed_def)
  from selectModel_first_match [OF ne, of "Some ''b''"] yes
  obtain m i where m: "selectModel shadowed (Some ''b'') = Some m"
    and i: "i < length (models shadowed)" "m = models shadowed ! i"
           "composite m = ''b'' \<or> family m = ''b''"
    by auto
  from i first have "i \<noteq> 0" by (cases i) auto
  with i(1) len have "i = 1" by simp
  with m i(2) have family: "selectModel shadowed (Some ''b'') = Some (models shadowed ! 1)" by simp
  from unknown absent family show ?thesis by simp
qed

text \<open>
  C4 as stated fails: it gives a composite match priority over every family match. In
  \<open>shadowed\<close> the second model has the composite identifier \<^verbatim>\<open>a-b\<close>, the first one the
  family label \<^verbatim>\<open>a-b\<close>; \<open>selectModel\<close> returns the first.
\<close>

theorem selectModel_family_before_composite:
  "selectModel shadowed (Some ''a-b'') = Some \<lparr> handle = ''model-1'', vendor = ''x'', family = ''a-b'' \<rparr>
   \<and> find (\<lambda>m. composite m = ''a-b'') (models shadowed)
        = Some \<lparr> handle = ''model-2'', vendor = ''a'', family = ''b'' \<rparr>
   \<and> selectModel shadowed (Some ''a-b'') \<noteq> find (\<lambda>m. composite m = ''a-b'') (models shadowed)"
  by (simp add: selectModel_def shadowed_def composite_def)

text \<open>
  Claim C10. When both queries of \<open>initialize\<close> return no model, \<open>initialize\<close> returns
  normally and leaves the cached list empty; on the empty list \<open>selectModel\<close> returns
  \<^verbatim>\<open>undefined\<close> for every name argument, present or absent, without failing; and
  \<open>createChatCompletion\<close> then ends with the \<^verbatim>\<open>TypeError\<close> of reading \<^verbatim>\<open>sendRequest\<close> from
  \<^verbatim>\<open>undefined\<close>: nothing guards the provider call against the missing model.
\<close>

theorem selectModel_on_empty_list:
  assumes "selectChatModels lm (Some ''copilot'') = Inr []" and "selectChatModels lm None = Inr []"
  shows "initialize lm api = (Inr (), api\<lparr> models := [] \<rparr>)
       \<and> selectModel (api\<lparr> models := [] \<rparr>) modelName = None
       \<and> createChatCompletion lm env (api\<lparr> models := [] \<rparr>) request
           = (Inl undefined_model_error, api\<lparr> models := [] \<rparr>)"
proof -
  have sel: "selectModel (api\<lparr> models := [] \<rparr>) name = None" for name
    by (simp add: selectModel_def models_0_def split: option.splits)
  have "createChatCompletion lm env (api\<lparr> models := [] \<rparr>) request
           = (Inl undefined_model_error, api\<lparr> models := [] \<rparr>)"
    by (simp add: createChatCompletion_def ensure_initialized_def initialize_both_empty [OF assms]
        sel undefined_model_error_def)
  then show ?thesis using initialize_both_empty [OF assms] sel by simp
qed

text \<open>The theorem for C10 at the provider \<open>lm_none\<close>, both of whose queries return no model.\<close>

theorem selectModel_on_empty_list_witness:
  "initialize lm_none no_models = (Inr (), no_models)
   \<and> selectModel no_models (Some ''acme-fast'') = None
   \<and> createChatCompletion lm_none env0 no_models hello = (Inl undefined_model_error, no_models)"
proof -
  have a: "selectChatModels lm_none (Some ''copilot'') = Inr []" "selectChatModels lm_none None = Inr []"
    by (simp_all add: lm_none_def)
  have n: "no_models\<lparr> models := [] \<rparr> = no_models" by (simp add: no_models_def)
  from selectModel_on_empty_list [OF a, of no_models "Some ''acme-fast''" env0 hello]
  show ?thesis by (simp add: n)
qed

text \<open>
  Claim C2 at the provider \<open>lm_none\<close>, whose two queries return the empty list:
  \<open>initialize\<close> returns normally with an empty cached list, where the claim has it fail
  with the error that no models are available. The source throws that error only when a
  query throws.
\<close>

theorem initialize_returns_without_models:
  "initialize lm_none \<lparr> models = [] \<rparr> = (Inr (), \<lparr> models = [] \<rparr>)"
  by (simp add: initialize_def lm_none_def)


subsection \<open>Message conversion\<close>

text \<open>
  Claim C9. \<open>convertMessages\<close> keeps the length and the order of the request's messages:
  the turn at each position is a user turn with the message's content when the role is
  \<^verbatim>\<open>system\<close> or \<^verbatim>\<open>user\<close>, and an assistant turn with the message's content when the role is
  \<^verbatim>\<open>assistant\<close>.
\<close>

theorem convertMessages_roles:
  "length (convertMessages msgs) = length msgs \<and>
   (\<forall>i < length msgs.
      (role (msgs ! i) = ''system'' \<or> role (msgs ! i) = ''user''
         \<longrightarrow> convertMessages msgs ! i = User (content (msgs ! i))) \<and>
      (role (msgs ! i) = ''assistant''
         \<longrightarrow> convertMessages msgs ! i = Assistant (content (msgs ! i))))"
  by (auto simp: convertMessages_def convertMessage_def)

text \<open>The theorem for C9 at a conversation with one message of each role.\<close>

theorem convertMessages_roles_witness:
  "length (convertMessages three_roles) = 3 \<and>
   convertMessages three_roles ! 0 = User ''Be brief.'' \<and>
   convertMessages three_roles ! 1 = User ''Hello!'' \<and>
   convertMessages three_roles ! 2 = Assistant ''Hi.''"
proof -
  have len: "length three_roles = 3" by (simp add: three_roles_def)
  from convertMessages_roles [of three_roles]
  have l: "length (convertMessages three_roles) = length three_roles"
    and a: "\<And>i. i < length three_roles \<Longrightarrow>
              (role (three_roles ! i) = ''system'' \<or> role (three_roles ! i) = ''user''
                 \<longrightarrow> convertMessages three_roles ! i = User (content (three_roles ! i))) \<and>
              (role (three_roles ! i) = ''assistant''
                 \<longrightarrow> convertMessages three_roles ! i = Assistant (content (three_roles ! i)))"
    by blast+
  have "convertMessages three_roles ! 0 = User ''Be brief.''"
    using a [of 0] by (simp add: three_roles_def)
  moreover have "convertMessages three_roles ! 1 = User ''Hello!''"
    using a [of 1] by (simp add: three_roles_def)
  moreover have "convertMessages three_roles ! 2 = Assistant ''Hi.''"
    using a [of 2] by (simp add: three_roles_def)
  ultimately show ?thesis using l len by simp
qed


subsection \<open>Token usage\<close>

text \<open>
  Claim C5, as the code has it. In every buffered response \<^verbatim>\<open>prompt_tokens\<close> is the ceiling
  of a quarter of the length of the request's message contents joined by single spaces: the
  sum of the lengths of the contents plus the number of messages less one. \<^verbatim>\<open>completion_tokens\<close>
  is the ceiling of a quarter of the length of the generated content, and \<^verbatim>\<open>total_tokens\<close>
  is the sum of the two.
\<close>

theorem buffered_usage:
  assumes "createChatCompletion lm env api request = (Inr r, api')"
  shows "prompt_tokens (usage r) =
           nat \<lceil>real (sum_list (map (length \<circ> content) (messages request))
                        + (length (messages request) - 1)) / 4\<rceil>
       \<and> completion_tokens (usage r) = nat \<lceil>real (length (choices_0_content r)) / 4\<rceil>
       \<and> total_tokens (usage r) = prompt_tokens (usage r) + completion_tokens (usage r)"
proof -
  from createChatCompletion_Inr [OF assms] obtain m fragments
    where r: "r = completionResponse env m request (accumulate fragments)" by blast
  show ?thesis
    unfolding r completionResponse_usage estimateTokens_single
    by (simp only: estimateTokens_ceiling simp_thms)
qed

text \<open>
  The theorem for C5 at a request of two messages of four characters each, answered with
  the nine characters \<^verbatim>\<open>Hi there!\<close>: nine characters with the separator, so three prompt
  tokens, three completion tokens and six in total.
\<close>

theorem buffered_usage_witness:
  "\<exists>r api'. createChatCompletion lm_acme env0 no_models two_messages = (Inr r, api')
      \<and> prompt_tokens (usage r) = 3 \<and> completion_tokens (usage r) = 3 \<and> total_tokens (usage r) = 6"
proof -
  let ?r = "completionResponse env0 acme_fast two_messages ''Hi there!''"
  have c: "choices_0_content ?r = ''Hi there!''"
    by (simp add: choices_0_content_def completionResponse_def Let_def)
  have m: "messages two_messages =
             [\<lparr> role = ''system'', content = ''abcd'' \<rparr>, \<lparr> role = ''user'', content = ''efgh'' \<rparr>]"
    by (simp add: two_messages_def)
  from buffered_usage [OF run_two_messages]
  have "prompt_tokens (usage ?r) = 3 \<and> completion_tokens (usage ?r) = 3 \<and> total_tokens (usage ?r) = 6"
    by (simp add: c m)
  with run_two_messages show ?thesis by blast
qed

text \<open>
  C5 as stated fails: for the same request the contents concatenated have eight
  characters, which would give two prompt tokens; the response reports three.
\<close>

theorem prompt_tokens_counterexample:
  "\<exists>r api'. createChatCompletion lm_acme env0 no_models two_messages = (Inr r, api')
      \<and> prompt_tokens (usage r) = 3
      \<and> nat \<lceil>real (length (concat (map content (messages two_messages)))) / 4\<rceil> = 2"
proof -
  let ?r = "completionResponse env0 acme_fast two_messages ''Hi there!''"
  have m: "messages two_messages =
             [\<lparr> role = ''system'', content = ''abcd'' \<rparr>, \<lparr> role = ''user'', content = ''efgh'' \<rparr>]"
    by (simp add: two_messages_def)
  have "prompt_tokens (usage ?r) = 3"
    by (simp add: completionResponse_def Let_def estimateTokens_def m)
  moreover have "nat \<lceil>real (length (concat (map content (messages two_messages)))) / 4\<rceil> = 2"
    by (simp add: m)
  ultimately show ?thesis using run_two_messages by blast
qed


subsection \<open>Buffered and streamed completions\<close>

text \<open>
  Claim C7. Whenever the buffered completion returns a response, the streaming completion
  for the same request, provider and cached models runs to its end without failing, and
  the content of the buffered response's only choice is the concatenation, in order, of the
  \<^verbatim>\<open>delta.content\<close> fields of the chunks it yields. The clock and the random identifier of
  the two calls may differ.
\<close>

theorem buffered_content_is_stream_concatenation:
  assumes "createChatCompletion lm env api request = (Inr r, api')"
  shows "\<exists>cs. createChatCompletionStream lm env' api request = ((cs, None), api')
             \<and> choices_0_content r = delta_contents cs"
proof -
  from createChatCompletion_Inr [OF assms] obtain m fragments
    where init: "ensure_initialized lm api = (Inr (), api')"
      and sel: "selectModel api' (model request) = Some m"
      and send: "sendRequest lm m (convertMessages (messages request)) = Inr (fragments, None)"
      and r: "r = completionResponse env m request (accumulate fragments)" by blast
  have "delta_contents (role_chunk i t m # map (content_chunk i t m) fragments @ [final_chunk i t m])
          = concat fragments" for i t
    by (induction fragments)
       (simp_all add: delta_contents_def chunk_delta_0_def role_chunk_def content_chunk_def
          final_chunk_def chunk_def List.map_filter_simps)
  then show ?thesis
    by (simp add: stream_run [OF init sel send] r completionResponse_def Let_def
        choices_0_content_def accumulate_concat)
qed

text \<open>
  The theorem for C7 at the request of two messages, which the sample provider answers
  with two fragments: the streamed deltas concatenate to the buffered content.
\<close>

theorem buffered_content_is_stream_concatenation_witness:
  "\<exists>cs. createChatCompletionStream lm_acme env0 no_models two_messages
           = ((cs, None), \<lparr> models = [acme_fast] \<rparr>)
      \<and> delta_contents cs = ''Hi there!''"
proof -
  from buffered_content_is_stream_concatenation [OF run_two_messages, of env0]
  obtain cs where run: "createChatCompletionStream lm_acme env0 no_models two_messages
                          = ((cs, None), \<lparr> models = [acme_fast] \<rparr>)"
    and eq: "choices_0_content (completionResponse env0 acme_fast two_messages ''Hi there!'')
               = delta_contents cs"
    by blast
  from eq have "delta_contents cs = ''Hi there!''" by (simp add: completionResponse_usage)
  with run show ?thesis by blast
qed

text \<open>
  Claim C8. When the cached models are available, a model is selected and the provider
  answers the converted messages with the fragments \<open>fragments\<close> and then ends, the
  generator yields \<open>length fragments + 2\<close> chunks and returns: first a chunk whose delta
  has the role \<^verbatim>\<open>assistant\<close> and no content, with \<^verbatim>\<open>finish_reason\<close> null; then one chunk
  for each fragment, in order, whose delta has that fragment as its content and no role,
  with \<^verbatim>\<open>finish_reason\<close> null; last a chunk with an empty delta and \<^verbatim>\<open>finish_reason\<close>
  \<^verbatim>\<open>stop\<close>. Every chunk has one choice and the \<^verbatim>\<open>id\<close> and \<^verbatim>\<open>created\<close> of the first chunk.
\<close>

theorem stream_chunk_sequence:
  assumes "ensure_initialized lm api = (Inr (), api1)"
      and "selectModel api1 (model request) = Some m"
      and "sendRequest lm m (convertMessages (messages request)) = Inr (fragments, None)"
  shows "\<exists>cs. createChatCompletionStream lm env api request = ((cs, None), api1)
     \<and> length cs = length fragments + 2
     \<and> chunk_delta_0 (cs ! 0) = \<lparr> delta_role = Some ''assistant'', delta_content = None \<rparr>
     \<and> chunk_finish_0 (cs ! 0) = None
     \<and> (\<forall>i < length fragments.
           chunk_delta_0 (cs ! Suc i) = \<lparr> delta_role = None, delta_content = Some (fragments ! i) \<rparr>
         \<and> chunk_finish_0 (cs ! Suc i) = None)
     \<and> chunk_delta_0 (cs ! Suc (length fragments)) = \<lparr> delta_role = None, delta_content = None \<rparr>
     \<and> chunk_finish_0 (cs ! Suc (length fragments)) = Some ''stop''
     \<and> (\<forall>c \<in> set cs. length (chunk_choices c) = 1
           \<and> chunk_id c = chunk_id (cs ! 0) \<and> chunk_created c = chunk_created (cs ! 0))"
proof -
  let ?i = "generateId env" and ?t = "now_seconds env"
  let ?cs = "role_chunk ?i ?t m # map (content_chunk ?i ?t m) fragments @ [final_chunk ?i ?t m]"
  have run: "createChatCompletionStream lm env api request = ((?cs, None), api1)"
    by (rule stream_run [OF assms])
  have len: "length ?cs = length fragments + 2" by simp
  have first: "chunk_delta_0 (?cs ! 0) = \<lparr> delta_role = Some ''assistant'', delta_content = None \<rparr>"
       "chunk_finish_0 (?cs ! 0) = None"
    by (simp_all add: chunk_delta_0_def chunk_finish_0_def role_chunk_def chunk_def)
  have mid: "\<forall>i < length fragments.
           chunk_delta_0 (?cs ! Suc i) = \<lparr> delta_role = None, delta_content = Some (fragments ! i) \<rparr>
         \<and> chunk_finish_0 (?cs ! Suc i) = None"
    by (simp add: nth_append chunk_delta_0_def chunk_finish_0_def content_chunk_def chunk_def)
  have last: "chunk_delta_0 (?cs ! Suc (length fragments)) = \<lparr> delta_role = None, delta_content = None \<rparr>"
       "chunk_finish_0 (?cs ! Suc (length fragments)) = Some ''stop''"
    by (simp_all add: nth_append chunk_delta_0_def chunk_finish_0_def final_chunk_def chunk_def)
  have same: "\<forall>c \<in> set ?cs. length (chunk_choices c) = 1
           \<and> chunk_id c = chunk_id (?cs ! 0) \<and> chunk_created c = chunk_created (?cs ! 0)"
    by (auto simp: role_chunk_def content_chunk_def final_chunk_def chunk_def)
  show ?thesis
    using run len first mid last same by blast
qed


text \<open>
  The theorem for C8 at the sample provider, which yields two fragments: four chunks, the
  role, the two fragments, and the final chunk.
\<close>

theorem stream_chunk_sequence_witness:
  "\<exists>cs. createChatCompletionStream lm_acme env0 no_models hello
        = ((cs, None), \<lparr> models = [acme_fast] \<rparr>)
     \<and> length cs = 4
     \<and> delta_role (chunk_delta_0 (cs ! 0)) = Some ''assistant''
     \<and> delta_content (chunk_delta_0 (cs ! 1)) = Some ''Hi ''
     \<and> delta_content (chunk_delta_0 (cs ! 2)) = Some ''there!''
     \<and> chunk_finish_0 (cs ! 3) = Some ''stop''
     \<and> chunk_id (cs ! 3) = chunk_id (cs ! 0) \<and> chunk_created (cs ! 3) = chunk_created (cs ! 0)"
proof -
  let ?fs = "[''Hi '', ''there!'']"
  have sel: "selectModel \<lparr> models = [acme_fast] \<rparr> (model hello) = Some acme_fast"
    by (simp add: selectModel_def models_0_def hello_def)
  have send: "sendRequest lm_acme acme_fast (convertMessages (messages hello)) = Inr (?fs, None)"
    by (simp add: lm_acme_def)
  from stream_chunk_sequence [OF init_acme sel send, of env0]
  obtain cs where run: "createChatCompletionStream lm_acme env0 no_models hello
                         = ((cs, None), \<lparr> models = [acme_fast] \<rparr>)"
    and len: "length cs = length ?fs + 2"
    and first: "chunk_delta_0 (cs ! 0) = \<lparr> delta_role = Some ''assistant'', delta_content = None \<rparr>"
    and mid: "\<forall>i < length ?fs. chunk_delta_0 (cs ! Suc i)
                 = \<lparr> delta_role = None, delta_content = Some (?fs ! i) \<rparr>
               \<and> chunk_finish_0 (cs ! Suc i) = None"
    and last: "chunk_finish_0 (cs ! Suc (length ?fs)) = Some ''stop''"
    and same: "\<forall>c \<in> set cs. length (chunk_choices c) = 1
           \<and> chunk_id c = chunk_id (cs ! 0) \<and> chunk_created c = chunk_created (cs ! 0)"
    by (elim exE conjE) (rule that; assumption)
  have l4: "length cs = 4" using len by simp
  have c1: "delta_content (chunk_delta_0 (cs ! 1)) = Some ''Hi ''"
    using mid [rule_format, of 0] by simp
  have c2: "delta_content (chunk_delta_0 (cs ! 2)) = Some ''there!''"
    using mid [rule_format, of 1] by (simp add: eval_nat_numeral)
  have c0: "delta_role (chunk_delta_0 (cs ! 0)) = Some ''assistant''"
    using first by simp
  have c3: "chunk_finish_0 (cs ! 3) = Some ''stop''"
    using last by (simp add: eval_nat_numeral)
  have "cs ! 3 \<in> set cs" using l4 by simp
  with same have s3: "chunk_id (cs ! 3) = chunk_id (cs ! 0) \<and> chunk_created (cs ! 3) = chunk_created (cs ! 0)"
    by blast
  show ?thesis using run l4 c0 c1 c2 c3 s3 by blast
qed


section \<open>Properties of the HTTP server\<close>

subsection \<open>Auxiliary facts\<close>

lemma error_types:
  "replace (toLowerCase ''Bad Request'') '' '' ''_'' = ''bad_request''"
  "replace (toLowerCase ''Not Found'') '' '' ''_'' = ''not_found''"
  "replace (toLowerCase ''Internal Server Error'') '' '' ''_'' = ''internal_server error''"
  by (simp_all add: toLowerCase_def lower_char_def)

lemma sendError_fresh:
  "\<not> headersSent res \<Longrightarrow>
   sendError res code phrase msg =
     (Inr (), res\<lparr> headersSent := True, statusCode := code,
                    headers := headers res @ [(''Content-Type'', ''application/json'')],
                    written := written res @ [ErrorJson \<lparr> type = replace (toLowerCase phrase) '' '' ''_'',
                                                         message_text = msg \<rparr>],
                    ended := True \<rparr>)"
  by (simp add: sendError_def writeHead_def res_end_def)

lemma cors_fresh: "\<not> headersSent (cors new_response)" "written (cors new_response) = []"
  "\<not> ended (cors new_response)"
  by (simp_all add: cors_def setHeader_def new_response_def)

lemma sendError_400:
  "\<not> headersSent res \<Longrightarrow>
   sendError res 400 ''Bad Request'' msg = (Inr (), error_response res 400 ''bad_request'' msg)"
  by (simp add: sendError_fresh error_types error_response_def)

lemma sendError_500:
  "\<not> headersSent res \<Longrightarrow>
   sendError res 500 ''Internal Server Error'' msg
     = (Inr (), error_response res 500 ''internal_server error'' msg)"
  by (simp add: sendError_fresh error_types error_response_def)

lemma isArray_iff: "isArray v \<longleftrightarrow> (\<exists>vs. v = Some (JArr vs))"
  by (cases v rule: isArray.cases) simp_all

lemma as_request_messages:
  assumes "as_request j = Some typed"
  shows "\<exists>vs. get_property j ''messages'' = Inr (Some (JArr vs))"
proof (cases j)
  case (JObj kvs)
  with assms show ?thesis
    by (cases "map_of kvs ''messages''") (auto split: json.splits option.splits)
qed (use assms in simp_all)

lemma completions_try_typed:
  assumes "as_request j = Some typed"
  shows "completions_try lm env api res j =
     (case OpenAIAPIServer_handleChatCompletions lm env api typed of
        (Inl e, api1) \<Rightarrow> Some (Inl e, res, api1)
      | (Inr (Generator (chunks, failure)), api1) \<Rightarrow>
          (case writeHead res 200 sse_headers of
             (Inl e, res1) \<Rightarrow> Some (Inl e, res1, api1)
           | (Inr u, res1) \<Rightarrow>
               (let res2 = foldl (\<lambda>r c. res_write r (SSEData c)) res1 chunks
                in case failure of
                     Some e \<Rightarrow> Some (Inl e, res2, api1)
                   | None \<Rightarrow> Some (Inr (), res_end (res_write res2 SSEDone) NoData, api1)))
      | (Inr (Completion response), api1) \<Rightarrow>
          (case writeHead res 200 json_headers of
             (Inl e, res1) \<Rightarrow> Some (Inl e, res1, api1)
           | (Inr u, res1) \<Rightarrow> Some (Inr (), res_end res1 (CompletionJson response), api1)))"
proof -
  from as_request_messages [OF assms] obtain vs
    where "get_property j ''messages'' = Inr (Some (JArr vs))" by blast
  then show ?thesis by (simp add: completions_try_def assms)
qed

lemma buffered_failure:
  assumes "stream typed \<noteq> Some True"
      and "initialize lm api = (Inr (), api1)"
      and "selectModel api1 (model typed) = Some m"
      and "sendRequest lm m (convertMessages (messages typed)) = Inl e"
  shows "OpenAIAPIServer_handleChatCompletions lm env api typed = (Inl (rethrow e), api1)"
proof -
  from assms(3) have "models api1 \<noteq> []"
    by (auto simp: selectModel_def models_0_def split: option.splits if_splits)
  then have "ensure_initialized lm api1 = (Inr (), api1)" by (simp add: ensure_initialized_def)
  then have "createChatCompletion lm env api1 typed = (Inl (rethrow e), api1)"
    using assms(3,4) by (simp add: createChatCompletion_def)
  then show ?thesis using assms(1,2) by (simp add: OpenAIAPIServer_handleChatCompletions_def)
qed

lemma route_completions:
  "route lm env api res (post_completions j) = VSCodeLLMServer_handleChatCompletions lm env api res (Parsed j)"
  by (simp add: route_def post_completions_def)

lemma handleRequest_completions:
  "handleRequest lm env api (post_completions j) =
     (case VSCodeLLMServer_handleChatCompletions lm env api (cors new_response) (Parsed j) of
        None \<Rightarrow> None
      | Some (Inl e, res1, api1) \<Rightarrow>
          (case sendError res1 500 ''Internal Server Error'' (error_message e ''Unknown error'') of
             (r, res2) \<Rightarrow> Some (r, res2, api1))
      | Some (Inr u, res1, api1) \<Rightarrow> Some (Inr u, res1, api1))"
  by (simp add: handleRequest_def route_completions Let_def) (simp add: post_completions_def)

lemma error_response_fields:
  "statusCode (error_response res code t msg) = code"
  "written (error_response res code t msg) = written res @ [ErrorJson \<lparr> type = t, message_text = msg \<rparr>]"
  "ended (error_response res code t msg)"
  by (simp_all add: error_response_def)

lemma init_quota: "initialize lm_quota no_models = (Inr (), \<lparr> models = [acme_fast] \<rparr>)"
  by (simp add: initialize_def no_models_def lm_quota_def)

lemma provider_failure_handled:
  assumes "as_request j = Some typed"
      and "stream typed \<noteq> Some True"
      and "initialize lm api = (Inr (), api1)"
      and "selectModel api1 (model typed) = Some m"
      and "sendRequest lm m (convertMessages (messages typed)) = Inl e"
      and "\<not> headersSent res"
  shows "VSCodeLLMServer_handleChatCompletions lm env api res (Parsed j)
           = Some (Inr (), error_response res 400 ''bad_request''
                             (error_message (rethrow e) ''Invalid request''), api1)"
  by (simp add: VSCodeLLMServer_handleChatCompletions_def completions_try_typed [OF assms(1)]
      buffered_failure [OF assms(2-5)] completions_catch_def sendError_400 [OF assms(6)])


lemma invalid_messages_handled:
  assumes "\<not> headersSent res"
      and "\<forall>vs. get_property j ''messages'' \<noteq> Inr (Some (JArr vs))"
  shows "\<exists>msg. \<forall>lm env api.
           VSCodeLLMServer_handleChatCompletions lm env api res (Parsed j)
             = Some (Inr (), error_response res 400 ''bad_request'' msg, api)"
proof (cases "get_property j ''messages''")
  case (Inl e)
  then have "\<forall>lm env api. VSCodeLLMServer_handleChatCompletions lm env api res (Parsed j)
             = Some (Inr (), error_response res 400 ''bad_request''
                        (error_message e ''Invalid request''), api)"
    by (simp add: VSCodeLLMServer_handleChatCompletions_def completions_try_def
        completions_catch_def sendError_400 [OF assms(1)])
  then show ?thesis by blast
next
  case (Inr v)
  with assms(2) have "\<not> isArray v" by (simp add: isArray_iff)
  then have "\<forall>lm env api. VSCodeLLMServer_handleChatCompletions lm env api res (Parsed j)
             = Some (Inr (), error_response res 400 ''bad_request''
                        ''messages field is required and must be an array'', api)"
    using Inr
    by (simp add: VSCodeLLMServer_handleChatCompletions_def completions_try_def
        sendError_400 [OF assms(1)])
  then show ?thesis by blast
qed


subsection \<open>Provider failures\<close>

text \<open>
  Claim C1, as the code has it on the buffered path. For a request
  \<^verbatim>\<open>POST /v1/chat/completions\<close> whose body passes validation and has no true
  \<^verbatim>\<open>stream\<close>, when the models are discovered, a model is selected and the provider's
  \<open>sendRequest\<close> throws \<open>e\<close>: \<open>createChatCompletion\<close> throws \<open>rethrow e\<close>, which carries
  the provider's message, and the \<^verbatim>\<open>catch\<close> of the server's \<open>handleChatCompletions\<close>
  answers it, so that the status is 400 and the envelope has the type \<^verbatim>\<open>bad_request\<close>
  and the message of the error thrown. The claim has status 500 here.
\<close>

theorem provider_failure_answered_400:
  assumes "as_request j = Some typed"
      and "stream typed \<noteq> Some True"
      and "initialize lm api = (Inr (), api1)"
      and "selectModel api1 (model typed) = Some m"
      and "sendRequest lm m (convertMessages (messages typed)) = Inl e"
  shows "createChatCompletion lm env api1 typed = (Inl (rethrow e), api1)
       \<and> handleRequest lm env api (post_completions j)
           = Some (Inr (), error_response (cors new_response) 400 ''bad_request''
                             (error_message (rethrow e) ''Invalid request''), api1)"
proof -
  from assms(4) have "models api1 \<noteq> []"
    by (auto simp: selectModel_def models_0_def split: option.splits if_splits)
  then have "ensure_initialized lm api1 = (Inr (), api1)" by (simp add: ensure_initialized_def)
  then have "createChatCompletion lm env api1 typed = (Inl (rethrow e), api1)"
    using assms(4,5) by (simp add: createChatCompletion_def)
  moreover have "handleRequest lm env api (post_completions j)
           = Some (Inr (), error_response (cors new_response) 400 ''bad_request''
                             (error_message (rethrow e) ''Invalid request''), api1)"
    by (simp add: handleRequest_completions provider_failure_handled [OF assms cors_fresh(1)])
  ultimately show ?thesis by simp
qed

text \<open>
  The theorem for C1 at the request \<^verbatim>\<open>{"messages":[{"role":"user","content":"Hello!"}]}\<close>
  to the provider \<open>lm_quota\<close>, through \<open>handleRequest\<close>: status 400, type \<^verbatim>\<open>bad_request\<close>.
\<close>

theorem provider_failure_answered_400_witness:
  "\<exists>res. handleRequest lm_quota env0 no_models (post_completions hello_body)
            = Some (Inr (), res, \<lparr> models = [acme_fast] \<rparr>)
      \<and> statusCode res = 400
      \<and> written res = [ErrorJson \<lparr> type = ''bad_request'',
                                    message_text = ''Language Model Error: Quota exceeded (Blocked)'' \<rparr>]"
proof -
  let ?typed = "\<lparr> model = None, messages = [\<lparr> role = ''user'', content = ''Hello!'' \<rparr>],
                  temperature = None, max_tokens = None, stream = None \<rparr>"
  let ?e = "LanguageModelError ''Quota exceeded'' ''Blocked''"
  have d: "as_request hello_body = Some ?typed" by (simp add: hello_body_def)
  have b: "stream ?typed \<noteq> Some True" by simp
  have s: "selectModel \<lparr> models = [acme_fast] \<rparr> (model ?typed) = Some acme_fast"
    by (simp add: selectModel_def models_0_def)
  have f: "sendRequest lm_quota acme_fast (convertMessages (messages ?typed)) = Inl ?e"
    by (simp add: lm_quota_def)
  have m: "error_message (rethrow ?e) ''Invalid request'' = ''Language Model Error: Quota exceeded (Blocked)''"
    by simp
  from provider_failure_answered_400 [OF d b init_quota s f, of env0]
  have "handleRequest lm_quota env0 no_models (post_completions hello_body)
          = Some (Inr (), error_response (cors new_response) 400 ''bad_request''
                    ''Language Model Error: Quota exceeded (Blocked)'', \<lparr> models = [acme_fast] \<rparr>)"
    by (simp add: m)
  then show ?thesis by (simp add: error_response_fields cors_fresh)
qed

text \<open>
  On the streaming path the header with status 200 is written before the generator runs;
  the \<^verbatim>\<open>catch\<close> then calls \<open>sendError\<close> on a response whose header is written, as does
  the \<^verbatim>\<open>catch\<close> of \<open>handleRequest\<close>, and the handler's promise is rejected with the
  response left open.
\<close>

lemma stream_failure_after_header:
  "\<exists>res. handleRequest lm_quota env0 no_models (post_completions hello_stream_body)
            = Some (Inl ERR_HTTP_HEADERS_SENT, res, \<lparr> models = [acme_fast] \<rparr>)
      \<and> statusCode res = 200 \<and> written res = [] \<and> \<not> ended res"
proof -
  let ?typed = "\<lparr> model = None, messages = [\<lparr> role = ''user'', content = ''Hello!'' \<rparr>],
                  temperature = None, max_tokens = None, stream = Some True \<rparr>"
  have d: "as_request hello_stream_body = Some ?typed" by (simp add: hello_stream_body_def)
  have g: "createChatCompletionStream lm_quota env0 \<lparr> models = [acme_fast] \<rparr> ?typed
             = (([], Some (Error ''Language Model Error: Quota exceeded (Blocked)'')),
                \<lparr> models = [acme_fast] \<rparr>)"
    by (simp add: createChatCompletionStream_def ensure_initialized_def selectModel_def
        models_0_def lm_quota_def)
  have a: "OpenAIAPIServer_handleChatCompletions lm_quota env0 no_models ?typed
             = (Inr (Generator ([], Some (Error ''Language Model Error: Quota exceeded (Blocked)''))),
                \<lparr> models = [acme_fast] \<rparr>)"
    by (simp add: OpenAIAPIServer_handleChatCompletions_def init_quota g)
  show ?thesis
    by (simp add: handleRequest_completions VSCodeLLMServer_handleChatCompletions_def
        completions_try_typed [OF d] a writeHead_def cors_fresh completions_catch_def
        sendError_def)
qed

subsection \<open>Validation of the messages field\<close>

text \<open>
  Claim C3, as the code has it. A request \<^verbatim>\<open>POST /v1/chat/completions\<close> whose parsed
  body has a \<^verbatim>\<open>messages\<close> field that is missing or is not an array (a body \<^verbatim>\<open>null\<close>,
  whose property cannot be read, included) is answered with status 400 and an envelope of
  type \<^verbatim>\<open>bad_request\<close>. The answer is the same for every provider, clock and cached
  model list, and the cached models are returned as they were: the translator is not called.
\<close>

theorem invalid_messages_answered_400:
  assumes "\<forall>vs. get_property j ''messages'' \<noteq> Inr (Some (JArr vs))"
  shows "\<exists>msg. \<forall>lm env api.
           handleRequest lm env api (post_completions j)
             = Some (Inr (), error_response (cors new_response) 400 ''bad_request'' msg, api)"
proof -
  from invalid_messages_handled [OF cors_fresh(1) assms] obtain msg
    where "\<forall>lm env api.
             VSCodeLLMServer_handleChatCompletions lm env api (cors new_response) (Parsed j)
               = Some (Inr (), error_response (cors new_response) 400 ''bad_request'' msg, api)"
    by blast
  then have "\<forall>lm env api. handleRequest lm env api (post_completions j)
               = Some (Inr (), error_response (cors new_response) 400 ''bad_request'' msg, api)"
    by (simp add: handleRequest_completions)
  then show ?thesis by blast
qed

text \<open>The theorem for C3 at the body \<^verbatim>\<open>{"model":"acme-fast"}\<close>, which has no messages.\<close>

theorem invalid_messages_answered_400_witness:
  "\<exists>msg. handleRequest lm_acme env0 no_models (post_completions no_messages_body)
           = Some (Inr (), error_response (cors new_response) 400 ''bad_request'' msg, no_models)"
proof -
  have "\<forall>vs. get_property no_messages_body ''messages'' \<noteq> Inr (Some (JArr vs))"
    by (simp add: no_messages_body_def)
  from invalid_messages_answered_400 [OF this] show ?thesis by blast
qed

text \<open>
  C3 as stated fails for the empty list: \<^verbatim>\<open>{"messages":[]}\<close> passes the validation, the
  translator is called with no messages, and the answer has status 200 and the completion
  of the provider.
\<close>

theorem empty_messages_reach_translator:
  "\<exists>res. handleRequest lm_acme env0 no_models (post_completions empty_messages_body)
            = Some (Inr (), res, \<lparr> models = [acme_fast] \<rparr>)
      \<and> statusCode res = 200
      \<and> written res =
          [CompletionJson (completionResponse env0 acme_fast
             \<lparr> model = None, messages = [], temperature = None, max_tokens = None, stream = None \<rparr>
             ''Hi there!'')]"
proof -
  let ?typed = "\<lparr> model = None, messages = [], temperature = None, max_tokens = None, stream = None \<rparr>"
  have d: "as_request empty_messages_body = Some ?typed" by (simp add: empty_messages_body_def)
  have i: "initialize lm_acme no_models = (Inr (), \<lparr> models = [acme_fast] \<rparr>)"
    by (simp add: initialize_def no_models_def lm_acme_def)
  have c: "createChatCompletion lm_acme env0 \<lparr> models = [acme_fast] \<rparr> ?typed
             = (Inr (completionResponse env0 acme_fast ?typed ''Hi there!''), \<lparr> models = [acme_fast] \<rparr>)"
    by (simp add: createChatCompletion_def ensure_initialized_def selectModel_def models_0_def
        lm_acme_def accumulate_def)
  have a: "OpenAIAPIServer_handleChatCompletions lm_acme env0 no_models ?typed
             = (Inr (Completion (completionResponse env0 acme_fast ?typed ''Hi there!'')),
                \<lparr> models = [acme_fast] \<rparr>)"
    by (simp add: OpenAIAPIServer_handleChatCompletions_def i c)
  have "handleRequest lm_acme env0 no_models (post_completions empty_messages_body)
          = Some (Inr (), res_end (snd (writeHead (cors new_response) 200 json_headers))
                    (CompletionJson (completionResponse env0 acme_fast ?typed ''Hi there!'')),
                  \<lparr> models = [acme_fast] \<rparr>)"
    by (simp add: handleRequest_completions VSCodeLLMServer_handleChatCompletions_def
        completions_try_typed [OF d] a writeHead_def cors_fresh)
  then show ?thesis by (simp add: writeHead_def cors_fresh res_end_def)
qed

subsection \<open>The error envelope\<close>

text \<open>
  Claim C6 at a request that is answered with status 500, \<^verbatim>\<open>GET /v1/models\<close> when the
  provider fails to list models: the type of the envelope is \<^verbatim>\<open>internal_server error\<close>,
  with its second space kept, where the claim has \<^verbatim>\<open>internal_server_error\<close>.
  \<^verbatim>\<open>replace\<close> with a string pattern replaces the first space only (\<open>error_types\<close> has the
  three phrases of the source).
\<close>

theorem internal_server_error_type:
  "\<exists>res api'. handleRequest lm_broken env0 no_models get_models = Some (Inr (), res, api')
      \<and> statusCode res = 500
      \<and> written res = [ErrorJson \<lparr> type = ''internal_server error'',
                                    message_text = no_models_message \<rparr>]"
proof -
  have i: "initialize lm_broken no_models = (Inl (Error no_models_message), no_models)"
    by (simp add: initialize_def lm_broken_def)
  have "handleRequest lm_broken env0 no_models get_models
          = Some (Inr (), error_response (cors new_response) 500 ''internal_server error''
                    no_models_message, no_models)"
    by (simp add: handleRequest_def route_def get_models_def VSCodeLLMServer_handleModels_def
        OpenAIAPIServer_handleModels_def i sendError_500 cors_fresh Let_def)
  then show ?thesis by (simp add: error_response_fields cors_fresh)
qed

end
